theory Spec2Isabelle
  imports Complex_Main "HOL-Library.Sublist"
begin

section \<open>Address classification of the geocoding service\<close>

text \<open>
  The development embeds \<^verbatim>\<open>src/services/googleGeocodingService.ts\<close>: the comparator
  \<^verbatim>\<open>compareAddresses\<close>, the component extractor \<^verbatim>\<open>extractAddressComponents\<close>, the
  country-only filter \<^verbatim>\<open>isCountryOnlyResult\<close> and the classifier
  \<^verbatim>\<open>classifyGeocodeResults\<close>.
\<close>

subsection \<open>JavaScript strings\<close>

text \<open>
  A JavaScript string is a sequence of UTF-16 code units. The model is \<^typ>\<open>string\<close>:
  a \<^typ>\<open>char\<close> stands for the code unit with the same number, so the strings of the
  model are the JavaScript strings whose code units are below 256 (Latin-1). On these,
  \<^verbatim>\<open>toLowerCase\<close> works code unit by code unit: the letters \<^verbatim>\<open>A-Z\<close> (65 to 90) and the
  capital letters 192 to 222 except the multiplication sign 215 move up by 32, and
  every other code unit stays. The class \<^verbatim>\<open>\s\<close> (and the set \<^verbatim>\<open>trim\<close> removes) holds
  TAB, LF, VT, FF, CR, the space and the no-break space 160; the class \<^verbatim>\<open>\w\<close>, which
  decides \<^verbatim>\<open>\b\<close>, is \<^verbatim>\<open>[A-Za-z0-9_]\<close>, since the patterns carry neither the \<^verbatim>\<open>u\<close> nor
  the \<^verbatim>\<open>i\<close> flag.
\<close>

definition toLowerCaseChar :: "char \<Rightarrow> char" where
  "toLowerCaseChar c =
     (let n = of_char c :: nat
      in if (65 \<le> n \<and> n \<le> 90) \<or> (192 \<le> n \<and> n \<le> 222 \<and> n \<noteq> 215)
         then char_of (n + 32) else c)"

definition toLowerCase :: "string \<Rightarrow> string" where
  "toLowerCase s = map toLowerCaseChar s"

definition isSpaceChar :: "char \<Rightarrow> bool" where
  "isSpaceChar c = (let n = of_char c :: nat in (9 \<le> n \<and> n \<le> 13) \<or> n = 32 \<or> n = 160)"

definition isWordChar :: "char \<Rightarrow> bool" where
  "isWordChar c =
     (let n = of_char c :: nat
      in (48 \<le> n \<and> n \<le> 57) \<or> (65 \<le> n \<and> n \<le> 90) \<or> n = 95 \<or> (97 \<le> n \<and> n \<le> 122))"

text \<open>
  \<^verbatim>\<open>s.replace(/[...]/g, r)\<close> for a pattern that is one character class \<open>cls\<close>: the scan
  goes left to right and every character of the class is replaced by \<open>r\<close>.
\<close>

fun replaceCharClass :: "(char \<Rightarrow> bool) \<Rightarrow> string \<Rightarrow> string \<Rightarrow> string" where
  "replaceCharClass cls r [] = []"
| "replaceCharClass cls r (c # cs) =
     (if cls c then r @ replaceCharClass cls r cs else c # replaceCharClass cls r cs)"

text \<open>
  \<^verbatim>\<open>\b\<close> holds between two neighbouring positions when exactly one of them is a word
  character; the position before the first and after the last character (\<open>None\<close>)
  counts as a non-word character.
\<close>

definition isWordAt :: "char option \<Rightarrow> bool" where
  "isWordAt p = (case p of None \<Rightarrow> False | Some c \<Rightarrow> isWordChar c)"

definition wordBoundary :: "char option \<Rightarrow> char option \<Rightarrow> bool" where
  "wordBoundary p q = (isWordAt p \<noteq> isWordAt q)"

definition charAt0 :: "string \<Rightarrow> char option" where
  "charAt0 s = (case s of [] \<Rightarrow> None | c # _ \<Rightarrow> Some c)"

text \<open>
  \<^verbatim>\<open>s.replace(/\b(w)\b/g, r)\<close> for a literal word \<open>w\<close>. The scan keeps the character
  before the current position in \<open>prev\<close>. At each position the pattern matches when
  there is a word boundary here, the rest of the string starts with \<open>w\<close>, and there is
  a word boundary after that occurrence; then \<open>r\<close> is written and the scan resumes
  after the occurrence. Otherwise the current character is copied and the scan moves
  one position on.
\<close>

function replaceWholeWord :: "string \<Rightarrow> string \<Rightarrow> char option \<Rightarrow> string \<Rightarrow> string" where
  "replaceWholeWord w r prev [] = []"
| "replaceWholeWord w r prev (c # cs) =
     (if w \<noteq> [] \<and> wordBoundary prev (Some c) \<and> prefix w (c # cs)
         \<and> wordBoundary (Some (last w)) (charAt0 (drop (length w) (c # cs)))
      then r @ replaceWholeWord w r (Some (last w)) (drop (length w) (c # cs))
      else c # replaceWholeWord w r (Some c) cs)"
  by pat_completeness auto
termination
  by (relation "measure (\<lambda>(w, r, prev, s). length s)") (auto simp: neq_Nil_conv)

text \<open>
  \<^verbatim>\<open>s.replace(/\s+/g, r)\<close>: a maximal run of characters of the class is replaced
  by one \<open>r\<close>.
\<close>

function replaceRuns :: "(char \<Rightarrow> bool) \<Rightarrow> string \<Rightarrow> string \<Rightarrow> string" where
  "replaceRuns cls r [] = []"
| "replaceRuns cls r (c # cs) =
     (if cls c then r @ replaceRuns cls r (dropWhile cls cs) else c # replaceRuns cls r cs)"
  by pat_completeness auto
termination
  by (relation "measure (\<lambda>(cls, r, s). length s)")
     (auto simp: length_dropWhile_le less_Suc_eq_le)

definition trimStart :: "string \<Rightarrow> string" where
  "trimStart s = dropWhile isSpaceChar s"

definition trimEnd :: "string \<Rightarrow> string" where
  "trimEnd s = rev (dropWhile isSpaceChar (rev s))"

definition trim :: "string \<Rightarrow> string" where
  "trim s = trimEnd (trimStart s)"

text \<open>
  \<^verbatim>\<open>s.split(sep)\<close> for a separator of one character: the pieces between the
  separators, empty pieces included; the empty string gives one empty piece.
\<close>

fun splitOn :: "char \<Rightarrow> string \<Rightarrow> string list" where
  "splitOn sep [] = [[]]"
| "splitOn sep (c # cs) =
     (if c = sep then [] # splitOn sep cs
      else (case splitOn sep cs of [] \<Rightarrow> [[c]] | p # ps \<Rightarrow> (c # p) # ps))"

text \<open>
  A JavaScript \<^verbatim>\<open>Set\<close> keeps its elements once each, in the order of their first
  insertion: \<^verbatim>\<open>new Set(xs)\<close> adds the elements of \<open>xs\<close> from left to right.
\<close>

definition Set_add :: "'a list \<Rightarrow> 'a \<Rightarrow> 'a list" where
  "Set_add s x = (if x \<in> set s then s else s @ [x])"

definition newSet :: "'a list \<Rightarrow> 'a list" where
  "newSet xs = fold (\<lambda>x s. Set_add s x) xs []"

definition Set_has :: "'a list \<Rightarrow> 'a \<Rightarrow> bool" where
  "Set_has s x = (x \<in> set s)"

definition Set_size :: "'a list \<Rightarrow> nat" where
  "Set_size s = length s"

subsection \<open>The address comparator\<close>

datatype MatchStatus = validated | corrected

text \<open>The local function \<^verbatim>\<open>normalize\<close> of \<^verbatim>\<open>compareAddresses\<close>.\<close>

definition normalize_addr :: "string \<Rightarrow> string" where
  "normalize_addr s =
     trim
      (replaceRuns isSpaceChar '' ''
        (replaceWholeWord ''mountain'' ''mtn'' None
          (replaceWholeWord ''avenue'' ''ave'' None
            (replaceWholeWord ''street'' ''st'' None
              (replaceWholeWord ''road'' ''rd'' None
                (replaceCharClass (\<lambda>c. c = CHR ''.'' \<or> c = CHR '','') []
                  (toLowerCase s)))))))"

text \<open>
  \<^verbatim>\<open>common / total\<close> is a division of doubles and \<^verbatim>\<open>0.6\<close> is the double nearest to
  3/5. Division is correctly rounded and rounding is monotone, so the quotient of the
  integers 3 and 5 is that same double, a quotient below 3/5 is rounded to at most that
  double, and a quotient \<open>c / t\<close> above 3/5 lies at least \<open>1 / (5 * t)\<close> above it, which
  is more than the distance between neighbouring doubles for every \<open>t\<close> below \<open>2 ^ 50\<close>,
  far more than the length of a JavaScript string. The comparison \<^verbatim>\<open>similarity > 0.6\<close>
  of the source therefore has the value of the exact comparison of the rational
  quotient with 6/10, which is what the model computes. The model's division by zero
  would give 0 where JavaScript gives \<^verbatim>\<open>NaN\<close>; \<open>total\<close> is never zero (lemma
  \<open>total_positive\<close> below). \<open>similarity\<close> is the value of the local variable of that
  name, as a function of the two normalized strings.
\<close>

definition similarity :: "string \<Rightarrow> string \<Rightarrow> rat" where
  "similarity normInput normResult =
     (let inputWords = newSet (splitOn CHR '' '' normInput);
          resultWords = newSet (splitOn CHR '' '' normResult);
          common = length (filter (\<lambda>w. Set_has resultWords w) inputWords);
          total = max (Set_size inputWords) (Set_size resultWords)
      in of_nat common / of_nat total)"

definition compareAddresses :: "string \<Rightarrow> string \<Rightarrow> MatchStatus" where
  "compareAddresses input result =
     (let normInput = normalize_addr input;
          normResult = normalize_addr result
      in if normInput = normResult then validated
         else if similarity normInput normResult > 0.6 then validated
         else corrected)"

subsection \<open>Provider results and the service's answer\<close>

text \<open>
  The results arrive as parsed JSON of type \<^verbatim>\<open>any[]\<close>. A field is optional in the
  model where the source itself guards against its absence:
  \<^verbatim>\<open>result.address_components || []\<close>, \<^verbatim>\<open>Array.isArray(result.types)\<close>,
  \<^verbatim>\<open>r.geometry?.location_type\<close> and \<^verbatim>\<open>!results\<close>. An absent \<^verbatim>\<open>partial_match\<close> is
  falsy, which is \<open>False\<close> here. The other fields are read without a guard wherever
  they are used and have the type they are used at.
\<close>

record address_component =
  long_name :: string
  short_name :: string
  types :: "string list"

record geometry =
  location_type :: string

record AddressComponents =
  street_number :: "string option"
  street_name :: "string option"
  city :: "string option"
  state :: "string option"
  zipCode :: "string option"

record exact_match =
  formatted_address :: string
  components :: AddressComponents

datatype Status = VALIDATED | CORRECTED | UNVERIFIABLE

record AddressValidationResult =
  status :: Status
  exactMatch :: "exact_match option"
  possibleMatches :: "string list option"
  message :: "string option"

record geocode_result =
  formatted_address :: string
  partial_match :: bool
  geometry :: "geometry option"
  types :: "string list option"
  address_components :: "address_component list option"

text \<open>
  Reading a property of \<^verbatim>\<open>undefined\<close> raises a \<^verbatim>\<open>TypeError\<close>; over results of the
  shape above it is the only exception the classifier can raise.
\<close>

datatype js_error = TypeError

subsection \<open>Component extraction\<close>

text \<open>
  The local function \<^verbatim>\<open>get\<close>: the first component whose \<^verbatim>\<open>types\<close> include the tag,
  \<^verbatim>\<open>undefined\<close> when there is none.
\<close>

definition get :: "address_component list \<Rightarrow> string \<Rightarrow> bool \<Rightarrow> string option" where
  "get comps type useShort =
     (case List.find (\<lambda>c. type \<in> set (address_component.types c)) comps of
        None \<Rightarrow> None
      | Some comp0 \<Rightarrow> Some (if useShort then short_name comp0 else long_name comp0))"

text \<open>
  A value of type \<^verbatim>\<open>string | undefined\<close> is truthy when it is a non-empty string;
  \<^verbatim>\<open>a || b\<close> is \<open>a\<close> when \<open>a\<close> is truthy and \<open>b\<close> otherwise.
\<close>

definition truthy :: "string option \<Rightarrow> bool" where
  "truthy v = (case v of None \<Rightarrow> False | Some s \<Rightarrow> s \<noteq> [])"

definition js_or :: "string option \<Rightarrow> string option \<Rightarrow> string option" where
  "js_or a b = (if truthy a then a else b)"

definition extractAddressComponents :: "address_component list \<Rightarrow> AddressComponents" where
  "extractAddressComponents comps =
     \<lparr>street_number = get comps ''street_number'' False,
      street_name = get comps ''route'' False,
      city = js_or (get comps ''locality'' False) (get comps ''postal_town'' False),
      state = get comps ''administrative_area_level_1'' True,
      zipCode = get comps ''postal_code'' False\<rparr>"

subsection \<open>The country-only filter\<close>

text \<open>\<^verbatim>\<open>xs || []\<close> for an array that may be absent (an array, even empty, is truthy).\<close>

definition orEmptyArray :: "'a list option \<Rightarrow> 'a list" where
  "orEmptyArray xs = (case xs of None \<Rightarrow> [] | Some ys \<Rightarrow> ys)"

definition isCountryOnlyResult :: "geocode_result \<Rightarrow> bool" where
  "isCountryOnlyResult result =
     (if \<not> partial_match result then False
      else
        let hasCountryType =
              (case geocode_result.types result of
                 None \<Rightarrow> False | Some ts \<Rightarrow> ''country'' \<in> set ts);
            components =
              extractAddressComponents (orEmptyArray (address_components result));
            lacksDetail =
              (\<not> truthy (street_number components) \<and> \<not> truthy (street_name components)
               \<and> \<not> truthy (city components) \<and> \<not> truthy (zipCode components))
        in hasCountryType \<or> lacksDetail)"

subsection \<open>The classifier\<close>

text \<open>\<^verbatim>\<open>r.geometry?.location_type\<close>: \<^verbatim>\<open>undefined\<close> when the result has no geometry.\<close>

definition locationTypeOf :: "geocode_result \<Rightarrow> string option" where
  "locationTypeOf r = map_option location_type (geometry r)"

definition isExactMatch :: "geocode_result \<Rightarrow> bool" where
  "isExactMatch r = (\<not> partial_match r \<and> locationTypeOf r = Some ''ROOFTOP'')"

definition isPossibleMatch :: "geocode_result \<Rightarrow> bool" where
  "isPossibleMatch r =
     (partial_match r \<or>
      (case locationTypeOf r of
         None \<Rightarrow> False
       | Some t \<Rightarrow> t \<in> set [''RANGE_INTERPOLATED'', ''GEOMETRIC_CENTER'', ''APPROXIMATE'']))"

definition classifyGeocodeResults ::
    "geocode_result list option \<Rightarrow> string \<Rightarrow> js_error + AddressValidationResult" where
  "classifyGeocodeResults results originalInput =
     (case results of
        None \<Rightarrow>
          Inr \<lparr>status = UNVERIFIABLE, exactMatch = None, possibleMatches = None,
               message = Some ''No address found.''\<rparr>
      | Some rs \<Rightarrow>
          if length rs = 0 then
            Inr \<lparr>status = UNVERIFIABLE, exactMatch = None, possibleMatches = None,
                 message = Some ''No address found.''\<rparr>
          else
            let nonCountryResults = filter (\<lambda>r. \<not> isCountryOnlyResult r) rs in
            if length nonCountryResults = 0 then
              Inr \<lparr>status = UNVERIFIABLE, exactMatch = None, possibleMatches = None,
                   message = Some ''No precise US match found.''\<rparr>
            else
              let exactMatches = filter isExactMatch nonCountryResults in
              if length exactMatches > 0 then
                let best = exactMatches ! 0 in
                (case address_components best of
                   None \<Rightarrow> Inl TypeError
                 | Some comps \<Rightarrow>
                     let components = extractAddressComponents comps;
                         matchStatus =
                           compareAddresses originalInput (geocode_result.formatted_address best)
                     in if matchStatus = validated then
                          Inr \<lparr>status = VALIDATED,
                               exactMatch =
                                 Some \<lparr>exact_match.formatted_address =
                                         geocode_result.formatted_address best,
                                       components = components\<rparr>,
                               possibleMatches = None, message = None\<rparr>
                        else
                          Inr \<lparr>status = CORRECTED, exactMatch = None,
                               possibleMatches = Some [geocode_result.formatted_address best],
                               message = None\<rparr>)
              else
                let possible = filter isPossibleMatch nonCountryResults in
                if length possible > 0 then
                  Inr \<lparr>status = CORRECTED, exactMatch = None,
                       possibleMatches = Some (map geocode_result.formatted_address possible),
                       message = None\<rparr>
                else
                  Inr \<lparr>status = UNVERIFIABLE, exactMatch = None, possibleMatches = None,
                       message = Some ''No precise US match found.''\<rparr>)"

subsection \<open>The three outcomes\<close>

text \<open>
  The answers the classifier builds have one of three shapes, the variants \<open>Exact\<close>,
  \<open>Corrected\<close> and \<open>Unverifiable\<close> of the classification outcome.
\<close>

definition Exact :: "string \<Rightarrow> AddressComponents \<Rightarrow> AddressValidationResult" where
  "Exact fa comps =
     \<lparr>status = VALIDATED,
      exactMatch = Some \<lparr>exact_match.formatted_address = fa, components = comps\<rparr>,
      possibleMatches = None, message = None\<rparr>"

definition Corrected :: "string list \<Rightarrow> AddressValidationResult" where
  "Corrected alternatives =
     \<lparr>status = CORRECTED, exactMatch = None, possibleMatches = Some alternatives,
      message = None\<rparr>"

definition Unverifiable :: "string \<Rightarrow> AddressValidationResult" where
  "Unverifiable msg =
     \<lparr>status = UNVERIFIABLE, exactMatch = None, possibleMatches = None, message = Some msg\<rparr>"

text \<open>The value of the local variable \<^verbatim>\<open>nonCountryResults\<close> of the classifier.\<close>

definition nonCountryResults :: "geocode_result list \<Rightarrow> geocode_result list" where
  "nonCountryResults rs = filter (\<lambda>r. \<not> isCountryOnlyResult r) rs"

subsection \<open>The comparator in the words of the specification\<close>

text \<open>
  The specification describes the normalization as a sequence of steps on the whole
  string: lowercase; strip periods and commas; replace the whole words of a fixed table
  by their abbreviations; collapse runs of whitespace to one space; trim. A whole word
  is a maximal run of word characters, and \<open>mapWords f\<close> applies \<open>f\<close> to each of them,
  leaving everything between them as it is. The table is applied once, to every word at
  the same time, where the source makes four passes over the string, one per word of
  the table.
\<close>

function mapWords :: "(string \<Rightarrow> string) \<Rightarrow> string \<Rightarrow> string" where
  "mapWords f [] = []"
| "mapWords f (c # cs) =
     (if isWordChar c
      then f (c # takeWhile isWordChar cs) @ mapWords f (dropWhile isWordChar cs)
      else c # mapWords f cs)"
  by pat_completeness auto
termination
  by (relation "measure (\<lambda>(f, s). length s)")
     (auto simp: length_dropWhile_le less_Suc_eq_le)

definition abbreviations :: "(string \<times> string) list" where
  "abbreviations =
     [(''road'', ''rd''), (''street'', ''st''), (''avenue'', ''ave''), (''mountain'', ''mtn'')]"

definition abbreviate :: "string \<Rightarrow> string" where
  "abbreviate w = (case map_of abbreviations w of None \<Rightarrow> w | Some r \<Rightarrow> r)"

definition spec_normalize :: "string \<Rightarrow> string" where
  "spec_normalize s =
     trim
      (replaceRuns isSpaceChar '' ''
        (mapWords abbreviate
          (filter (\<lambda>c. c \<noteq> CHR ''.'' \<and> c \<noteq> CHR '','') (map toLowerCaseChar s))))"

text \<open>
  The decision of the specification: equal normalized strings are validated; otherwise
  the two strings are split on single spaces into sets of words, and the verdict is
  validated exactly when the size of the intersection divided by the larger of the two
  sizes is strictly greater than 0.6.
\<close>

definition wordSet :: "string \<Rightarrow> string set" where
  "wordSet s = set (splitOn CHR '' '' s)"

definition spec_compare :: "string \<Rightarrow> string \<Rightarrow> MatchStatus" where
  "spec_compare input candidateFormatted =
     (let a = spec_normalize input; b = spec_normalize candidateFormatted
      in if a = b then validated
         else if (of_nat (card (wordSet a \<inter> wordSet b)) :: rat)
                  / of_nat (max (card (wordSet a)) (card (wordSet b))) > 0.6
         then validated else corrected)"

subsection \<open>Notions used in the proofs\<close>

text \<open>
  A string is \<open>wordy\<close> when it is a non-empty run of word characters; \<open>startsNonWord\<close>
  holds of a string that cannot continue such a run; \<open>keepsWords f\<close> says that \<open>f\<close> maps
  words to words; a \<open>plainChar\<close> is left alone by the first two steps of the
  normalization.
\<close>

definition wordy :: "string \<Rightarrow> bool" where
  "wordy x = (x \<noteq> [] \<and> (\<forall>c\<in>set x. isWordChar c))"

definition startsNonWord :: "string \<Rightarrow> bool" where
  "startsNonWord t = (case t of [] \<Rightarrow> True | c # _ \<Rightarrow> \<not> isWordChar c)"

definition keepsWords :: "(string \<Rightarrow> string) \<Rightarrow> bool" where
  "keepsWords f = (\<forall>x. wordy x \<longrightarrow> wordy (f x))"


subsection \<open>Sample provider results\<close>

text \<open>Results used as concrete inputs below.\<close>

definition rooftop :: "string \<Rightarrow> address_component list option \<Rightarrow> geocode_result" where
  "rooftop fa comps =
     \<lparr>formatted_address = fa, partial_match = False,
      geometry = Some \<lparr>location_type = ''ROOFTOP''\<rparr>, types = Some [],
      address_components = comps\<rparr>"

definition partialApproximate :: "string \<Rightarrow> geocode_result" where
  "partialApproximate fa =
     \<lparr>formatted_address = fa, partial_match = True,
      geometry = Some \<lparr>location_type = ''APPROXIMATE''\<rparr>, types = Some [],
      address_components =
        Some [\<lparr>long_name = ''Springfield'', short_name = ''Springfield'',
               types = [''locality'', ''political'']\<rparr>]\<rparr>"

definition countryFallback :: geocode_result where
  "countryFallback =
     \<lparr>formatted_address = ''United States'', partial_match = True,
      geometry = Some \<lparr>location_type = ''APPROXIMATE''\<rparr>,
      types = Some [''country'', ''political''],
      address_components =
        Some [\<lparr>long_name = ''United States'', short_name = ''US'',
               types = [''country'', ''political'']\<rparr>]\<rparr>"

definition countryNonPartial :: geocode_result where
  "countryNonPartial = countryFallback\<lparr>partial_match := False\<rparr>"

definition emptyStreetNumber :: geocode_result where
  "emptyStreetNumber =
     \<lparr>formatted_address = ''Springfield'', partial_match = True,
      geometry = Some \<lparr>location_type = ''APPROXIMATE''\<rparr>, types = Some [],
      address_components =
        Some [\<lparr>long_name = [], short_name = [], types = [''street_number'']\<rparr>]\<rparr>"

section \<open>Properties of the comparator\<close>

subsection \<open>The scanning replacements and the whole-word map\<close>

lemma replaceCharClass_filter: "replaceCharClass cls [] s = filter (\<lambda>c. \<not> cls c) s"
  by (induction s) auto


lemma startsNonWord_dropWhile: "startsNonWord (dropWhile isWordChar s)"
  by (induction s) (auto simp: startsNonWord_def)

lemma startsNonWord_take_drop:
  "startsNonWord t \<Longrightarrow> takeWhile isWordChar t = [] \<and> dropWhile isWordChar t = t"
  by (cases t) (auto simp: startsNonWord_def)

lemma takeWhile_wordy_append:
  "\<forall>c\<in>set x. isWordChar c \<Longrightarrow> startsNonWord t \<Longrightarrow>
     takeWhile isWordChar (x @ t) = x \<and> dropWhile isWordChar (x @ t) = t"
  by (induction x) (auto simp: startsNonWord_take_drop)

lemma mapWords_wordy_append:
  assumes "wordy x" and "startsNonWord t"
  shows "mapWords f (x @ t) = f x @ mapWords f t"
proof -
  from assms(1) obtain c x' where x: "x = c # x'" and c: "isWordChar c"
    and x': "\<forall>c\<in>set x'. isWordChar c"
    by (cases x) (auto simp: wordy_def)
  from takeWhile_wordy_append [OF x' assms(2)] c show ?thesis
    by (simp add: x)
qed

lemma run_is_word:
  assumes "wordy w"
  shows "(prefix w s \<and> \<not> isWordAt (charAt0 (drop (length w) s)))
           = (takeWhile isWordChar s = w)"
proof
  assume a: "prefix w s \<and> \<not> isWordAt (charAt0 (drop (length w) s))"
  then obtain t where s: "s = w @ t"
    by (auto simp: prefix_def)
  with a have "startsNonWord t"
    by (cases t) (auto simp: startsNonWord_def isWordAt_def charAt0_def)
  with assms takeWhile_wordy_append [of w t] show "takeWhile isWordChar s = w"
    by (simp add: s wordy_def)
next
  assume a: "takeWhile isWordChar s = w"
  then have s: "s = w @ dropWhile isWordChar s"
    by (metis takeWhile_dropWhile_id)
  then have p: "prefix w s"
    by (metis prefixI)
  from s have "drop (length w) s = dropWhile isWordChar s"
    by (metis append_eq_conv_conj)
  with startsNonWord_dropWhile [of s] have "\<not> isWordAt (charAt0 (drop (length w) s))"
    by (cases "dropWhile isWordChar s") (auto simp: startsNonWord_def isWordAt_def charAt0_def)
  with p show "prefix w s \<and> \<not> isWordAt (charAt0 (drop (length w) s))"
    by simp
qed


lemma wordy_hd: "wordy w \<Longrightarrow> prefix w (c # cs) \<Longrightarrow> isWordChar c"
  by (cases w) (auto simp: wordy_def)

lemma wordy_last: "wordy w \<Longrightarrow> isWordChar (last w)"
  by (simp add: wordy_def)

lemma replaceWholeWord_mapWords_aux:
  "wordy w \<Longrightarrow>
   replaceWholeWord w r prev s =
     (if isWordAt prev
      then takeWhile isWordChar s @ mapWords (\<lambda>x. if x = w then r else x) (dropWhile isWordChar s)
      else mapWords (\<lambda>x. if x = w then r else x) s)"
proof (induction w r prev s rule: replaceWholeWord.induct)
  case (1 w r prev)
  show ?case by simp
next
  case (2 w r prev c cs)
  let ?f = "\<lambda>x. if x = w then r else x"
  let ?M = "w \<noteq> [] \<and> wordBoundary prev (Some c) \<and> prefix w (c # cs)
         \<and> wordBoundary (Some (last w)) (charAt0 (drop (length w) (c # cs)))"
  let ?rest = "dropWhile isWordChar cs"
  note w = \<open>wordy w\<close>
  have lastw: "isWordAt (Some (last w))"
    using w by (simp add: isWordAt_def wordy_last)
  have key: "(prefix w (c # cs)
        \<and> wordBoundary (Some (last w)) (charAt0 (drop (length w) (c # cs))))
      = (takeWhile isWordChar (c # cs) = w)"
    using run_is_word [OF w, of "c # cs"] lastw by (simp add: wordBoundary_def)
  show ?case
  proof (cases "isWordAt prev")
    case True
    have notM: "\<not> ?M"
    proof
      assume m: ?M
      with True have "\<not> isWordChar c"
        by (simp add: wordBoundary_def isWordAt_def)
      moreover from m w have "isWordChar c"
        by (auto dest: wordy_hd)
      ultimately show False by simp
    qed
    with "2.IH"(2) w have "replaceWholeWord w r (Some c) cs =
        (if isWordChar c then takeWhile isWordChar cs @ mapWords ?f (dropWhile isWordChar cs)
         else mapWords ?f cs)"
      by (simp add: isWordAt_def)
    moreover have "replaceWholeWord w r prev (c # cs) =
        c # replaceWholeWord w r (Some c) cs"
      by (subst replaceWholeWord.simps(2)) (rule if_not_P [OF notM])
    ultimately show ?thesis
      using True by simp
  next
    case False
    show ?thesis
    proof (cases "isWordChar c")
      case nw: False
      with False have notM: "\<not> ?M"
        by (simp add: wordBoundary_def isWordAt_def)
      with "2.IH"(2) w nw have "replaceWholeWord w r (Some c) cs = mapWords ?f cs"
        by (simp add: isWordAt_def)
      moreover have "replaceWholeWord w r prev (c # cs) =
          c # replaceWholeWord w r (Some c) cs"
        by (subst replaceWholeWord.simps(2)) (rule if_not_P [OF notM])
      ultimately show ?thesis
        using False nw by simp
    next
      case wc: True
      with False have b: "wordBoundary prev (Some c)"
        by (simp add: wordBoundary_def isWordAt_def)
      from w have wne: "w \<noteq> []"
        by (simp add: wordy_def)
      from b wne key wc have M_iff: "?M = (c # takeWhile isWordChar cs = w)"
        by simp
      show ?thesis
      proof (cases ?M)
        case m: True
        with M_iff have run: "c # takeWhile isWordChar cs = w"
          by simp
        have "c # cs = (c # takeWhile isWordChar cs) @ ?rest"
          by simp
        then have "c # cs = w @ ?rest"
          by (simp only: run)
        then have d: "drop (length w) (c # cs) = ?rest"
          by (metis append_eq_conv_conj)
        have "replaceWholeWord w r (Some (last w)) (drop (length w) (c # cs)) =
            takeWhile isWordChar ?rest @ mapWords ?f (dropWhile isWordChar ?rest)"
          using "2.IH"(1) [OF m w] lastw by (simp add: d)
        also have "\<dots> = mapWords ?f ?rest"
          using startsNonWord_take_drop [OF startsNonWord_dropWhile [of cs]] by simp
        finally have "replaceWholeWord w r (Some (last w)) (drop (length w) (c # cs))
            = mapWords ?f ?rest" .
        moreover have "replaceWholeWord w r prev (c # cs) =
            r @ replaceWholeWord w r (Some (last w)) (drop (length w) (c # cs))"
          by (subst replaceWholeWord.simps(2)) (rule if_P [OF m])
        ultimately show ?thesis
          using False wc run by simp
      next
        case nm: False
        with M_iff have run: "c # takeWhile isWordChar cs \<noteq> w"
          by simp
        from "2.IH"(2) [OF nm w] wc have "replaceWholeWord w r (Some c) cs =
            takeWhile isWordChar cs @ mapWords ?f ?rest"
          by (simp add: isWordAt_def)
        moreover have "replaceWholeWord w r prev (c # cs) =
            c # replaceWholeWord w r (Some c) cs"
          by (subst replaceWholeWord.simps(2)) (rule if_not_P [OF nm])
        ultimately show ?thesis
          using False wc run by simp
      qed
    qed
  qed
qed

lemma replaceWholeWord_mapWords:
  "wordy w \<Longrightarrow>
   replaceWholeWord w r None s = mapWords (\<lambda>x. if x = w then r else x) s"
  by (simp add: replaceWholeWord_mapWords_aux isWordAt_def)


lemma wordy_run: "isWordChar c \<Longrightarrow> wordy (c # takeWhile isWordChar cs)"
  by (auto simp: wordy_def dest: set_takeWhileD)

lemma startsNonWord_mapWords:
  "startsNonWord t \<Longrightarrow> startsNonWord (mapWords f t)"
  by (cases t) (auto simp: startsNonWord_def)

lemma mapWords_comp:
  "keepsWords g \<Longrightarrow> mapWords f (mapWords g s) = mapWords (\<lambda>x. f (g x)) s"
proof (induction g s rule: mapWords.induct)
  case (1 g)
  show ?case by simp
next
  case (2 g c cs)
  show ?case
  proof (cases "isWordChar c")
    case True
    let ?run = "c # takeWhile isWordChar cs"
    let ?rest = "dropWhile isWordChar cs"
    from True "2.prems" have "wordy (g ?run)"
      by (simp add: keepsWords_def wordy_run)
    moreover have "startsNonWord (mapWords g ?rest)"
      by (simp add: startsNonWord_mapWords startsNonWord_dropWhile)
    ultimately have "mapWords f (g ?run @ mapWords g ?rest) =
        f (g ?run) @ mapWords f (mapWords g ?rest)"
      by (rule mapWords_wordy_append)
    with True "2.IH"(1) "2.prems" show ?thesis
      by simp
  next
    case False
    with "2.IH"(2) "2.prems" show ?thesis
      by simp
  qed
qed

lemma mapWords_cong:
  "(\<And>x. wordy x \<Longrightarrow> f x = g x) \<Longrightarrow> mapWords f s = mapWords g s"
proof (induction f s rule: mapWords.induct)
  case (1 f)
  show ?case by simp
next
  case (2 f c cs)
  then show ?case
    by (simp add: wordy_run)
qed

lemma wordy_literals:
  "wordy ''road''" "wordy ''street''" "wordy ''avenue''" "wordy ''mountain''"
  "wordy ''rd''" "wordy ''st''" "wordy ''ave''" "wordy ''mtn''"
  by (simp_all add: wordy_def isWordChar_def)

lemma keepsWords_replace: "wordy r \<Longrightarrow> keepsWords (\<lambda>x. if x = w then r else x)"
  by (simp add: keepsWords_def)

lemma keepsWords_comp: "keepsWords f \<Longrightarrow> keepsWords g \<Longrightarrow> keepsWords (\<lambda>x. f (g x))"
  by (simp add: keepsWords_def)

lemma abbreviate_eq:
  "abbreviate x =
     (if x = ''road'' then ''rd'' else if x = ''street'' then ''st''
      else if x = ''avenue'' then ''ave'' else if x = ''mountain'' then ''mtn'' else x)"
  by (simp add: abbreviate_def abbreviations_def)

lemma four_passes:
  "replaceWholeWord ''mountain'' ''mtn'' None
     (replaceWholeWord ''avenue'' ''ave'' None
       (replaceWholeWord ''street'' ''st'' None
         (replaceWholeWord ''road'' ''rd'' None s))) = mapWords abbreviate s"
proof -
  let ?h1 = "\<lambda>x. if x = ''road'' then ''rd'' else x"
  let ?h2 = "\<lambda>x. if x = ''street'' then ''st'' else x"
  let ?h3 = "\<lambda>x. if x = ''avenue'' then ''ave'' else x"
  let ?h4 = "\<lambda>x. if x = ''mountain'' then ''mtn'' else x"
  have k1: "keepsWords ?h1" and k2: "keepsWords ?h2" and k3: "keepsWords ?h3"
    by (simp_all add: keepsWords_replace wordy_literals)
  have k12: "keepsWords (\<lambda>x. ?h2 (?h1 x))"
    by (rule keepsWords_comp [OF k2 k1])
  have k123: "keepsWords (\<lambda>x. ?h3 (?h2 (?h1 x)))"
    by (rule keepsWords_comp [OF k3 k12])
  have "replaceWholeWord ''mountain'' ''mtn'' None
     (replaceWholeWord ''avenue'' ''ave'' None
       (replaceWholeWord ''street'' ''st'' None
         (replaceWholeWord ''road'' ''rd'' None s)))
     = mapWords ?h4 (mapWords ?h3 (mapWords ?h2 (mapWords ?h1 s)))"
    by (simp only: replaceWholeWord_mapWords wordy_literals)
  also have "\<dots> = mapWords ?h4 (mapWords ?h3 (mapWords (\<lambda>x. ?h2 (?h1 x)) s))"
    by (simp only: mapWords_comp [OF k1])
  also have "\<dots> = mapWords ?h4 (mapWords (\<lambda>x. ?h3 (?h2 (?h1 x))) s)"
    by (simp only: mapWords_comp [OF k12])
  also have "\<dots> = mapWords (\<lambda>x. ?h4 (?h3 (?h2 (?h1 x)))) s"
    by (simp only: mapWords_comp [OF k123])
  also have "\<dots> = mapWords abbreviate s"
    by (rule mapWords_cong) (simp add: abbreviate_eq)
  finally show ?thesis .
qed

lemma normalize_addr_spec: "normalize_addr s = spec_normalize s"
  by (simp add: normalize_addr_def spec_normalize_def four_passes replaceCharClass_filter
      toLowerCase_def)


lemma fold_Set_add:
  "set (fold (\<lambda>x s. Set_add s x) xs acc) = set acc \<union> set xs
   \<and> (distinct acc \<longrightarrow> distinct (fold (\<lambda>x s. Set_add s x) xs acc))"
  by (induction xs arbitrary: acc) (auto simp: Set_add_def)

lemma set_newSet: "set (newSet xs) = set xs"
  by (simp add: newSet_def fold_Set_add)

lemma distinct_newSet: "distinct (newSet xs)"
  by (simp add: newSet_def fold_Set_add)

lemma Set_size_newSet: "Set_size (newSet xs) = card (set xs)"
  using distinct_card [OF distinct_newSet, of xs] by (simp add: Set_size_def set_newSet)

lemma common_newSet:
  "length (filter (\<lambda>w. Set_has (newSet ys) w) (newSet xs)) = card (set xs \<inter> set ys)"
proof -
  have "length (filter (\<lambda>w. w \<in> set ys) (newSet xs)) =
      card ({w. w \<in> set ys} \<inter> set (newSet xs))"
    by (rule distinct_length_filter [OF distinct_newSet])
  also have "{w. w \<in> set ys} \<inter> set (newSet xs) = set xs \<inter> set ys"
    by (auto simp: set_newSet)
  finally show ?thesis
    by (simp add: Set_has_def set_newSet)
qed

lemma splitOn_nonempty: "splitOn sep s \<noteq> []"
  by (induction s) (auto split: list.splits)

lemma total_positive:
  "0 < max (Set_size (newSet (splitOn CHR '' '' normInput)))
           (Set_size (newSet (splitOn CHR '' '' normResult)))"
proof -
  have "set (splitOn CHR '' '' normInput) \<noteq> {}"
    by (simp add: splitOn_nonempty)
  then have "0 < card (set (splitOn CHR '' '' normInput))"
    by (simp add: card_gt_0_iff)
  then show ?thesis
    by (simp add: Set_size_newSet max_def)
qed

lemma similarity_card:
  "similarity a b =
     of_nat (card (wordSet a \<inter> wordSet b)) / of_nat (max (card (wordSet a)) (card (wordSet b)))"
  by (simp add: similarity_def Let_def common_newSet Set_size_newSet wordSet_def)

text \<open>
  Claim C2. For every pair of strings the comparator of the source gives the verdict of
  the specification: both strings are normalized in the same way (lowercase; periods
  and commas stripped; the whole words road, street, avenue and mountain replaced by
  rd, st, ave and mtn; whitespace runs collapsed to one space; trimmed); equal
  normalized strings are validated, and otherwise the verdict is validated exactly
  when the number of common words divided by the larger of the two numbers of words is
  strictly greater than 0.6, the words being the set of pieces between single spaces.
\<close>

theorem compareAddresses_meets_spec:
  "compareAddresses input candidateFormatted = spec_compare input candidateFormatted"
  by (simp add: compareAddresses_def spec_compare_def Let_def normalize_addr_spec
      similarity_card)

subsection \<open>Idempotence of the normalization\<close>














































section \<open>Properties of the classifier\<close>

lemma exact_filter_nonempty:
  "filter isExactMatch (nonCountryResults rs) = best # others \<Longrightarrow>
     rs \<noteq> [] \<and> nonCountryResults rs \<noteq> []"
proof -
  assume "filter isExactMatch (nonCountryResults rs) = best # others"
  then have ne: "nonCountryResults rs \<noteq> []"
    by auto
  then have "rs \<noteq> []"
    by (auto simp: nonCountryResults_def)
  with ne show ?thesis
    by simp
qed

lemma classify_unfold:
  "classifyGeocodeResults (Some rs) inp =
     (if rs = [] then Inr (Unverifiable ''No address found.'')
      else if nonCountryResults rs = [] then Inr (Unverifiable ''No precise US match found.'')
      else (case filter isExactMatch (nonCountryResults rs) of
              best # others \<Rightarrow>
                (case address_components best of
                   None \<Rightarrow> Inl TypeError
                 | Some comps \<Rightarrow>
                     Inr (if compareAddresses inp (geocode_result.formatted_address best) = validated
                          then Exact (geocode_result.formatted_address best)
                                 (extractAddressComponents comps)
                          else Corrected [geocode_result.formatted_address best]))
            | [] \<Rightarrow>
                if filter isPossibleMatch (nonCountryResults rs) \<noteq> []
                then Inr (Corrected (map geocode_result.formatted_address
                                      (filter isPossibleMatch (nonCountryResults rs))))
                else Inr (Unverifiable ''No precise US match found.'')))"
proof (cases "filter isExactMatch (nonCountryResults rs)")
  case Nil
  then show ?thesis
    by (simp add: classifyGeocodeResults_def nonCountryResults_def Corrected_def
        Unverifiable_def Let_def)
next
  case (Cons best others)
  then have best: "filter isExactMatch (nonCountryResults rs) ! 0 = best"
    by simp
  from Cons have ne: "nonCountryResults rs \<noteq> []" and "rs \<noteq> []"
    by (simp_all add: exact_filter_nonempty)
  with Cons best show ?thesis
    unfolding classifyGeocodeResults_def nonCountryResults_def [symmetric] Let_def
    by (simp add: Exact_def Corrected_def split: option.splits)
qed

lemma classify_None:
  "classifyGeocodeResults None inp = Inr (Unverifiable ''No address found.'')"
  by (simp add: classifyGeocodeResults_def Unverifiable_def)

lemma non_partial_not_country_only: "\<not> partial_match r \<Longrightarrow> \<not> isCountryOnlyResult r"
  by (simp add: isCountryOnlyResult_def)

lemma exact_not_country_only: "isExactMatch r \<Longrightarrow> \<not> isCountryOnlyResult r"
  by (simp add: isExactMatch_def non_partial_not_country_only)

lemma filter_exact_nonCountry:
  "filter isExactMatch (nonCountryResults rs) = filter isExactMatch rs"
  unfolding nonCountryResults_def filter_filter
  by (rule filter_cong) (auto dest: exact_not_country_only)

lemma find_Some_filter:
  "List.find P xs = Some y \<Longrightarrow> \<exists>ys. filter P xs = y # ys"
  by (induction xs) (auto split: if_splits)

text \<open>
  The exact-match path for a first result that carries its component array \<open>comps\<close>: the
  answer is decided by that result alone.
\<close>

lemma exact_path:
  assumes "filter isExactMatch (nonCountryResults rs) = best # others"
    and "address_components best = Some comps"
  shows "classifyGeocodeResults (Some rs) inp =
     Inr (if compareAddresses inp (geocode_result.formatted_address best) = validated
          then Exact (geocode_result.formatted_address best) (extractAddressComponents comps)
          else Corrected [geocode_result.formatted_address best])"
  using assms exact_filter_nonempty [OF assms(1)] by (simp add: classify_unfold)

text \<open>
  Claim C1. When the results that survive the country-only filter hold a result with
  \<^verbatim>\<open>partial_match\<close> false and location type \<^verbatim>\<open>ROOFTOP\<close>, the classifier looks at the first
  of them only: if the comparator reports \<open>validated\<close> on the original input and its
  formatted address, the answer is \<open>Exact\<close> with that formatted address and its extracted
  components; otherwise it is \<open>Corrected\<close> with the one-element list of that formatted
  address. For a first such result that carries its component array this is lemma
  \<open>exact_path\<close> above. For one that carries none the source does neither: the list below
  holds exactly one such result, the comparator reports \<open>validated\<close> on the input and its
  formatted address, and the classifier raises a \<^verbatim>\<open>TypeError\<close>, because line 110 passes
  \<^verbatim>\<open>best.address_components\<close> to the extractor without the \<^verbatim>\<open>|| []\<close> of
  \<^verbatim>\<open>isCountryOnlyResult\<close>.
\<close>

theorem first_exact_candidate_raises_without_components:
  "filter isExactMatch (nonCountryResults [rooftop ''Main Street'' None]) =
     [rooftop ''Main Street'' None]
   \<and> compareAddresses ''Main Street''
        (geocode_result.formatted_address (rooftop ''Main Street'' None)) = validated
   \<and> classifyGeocodeResults (Some [rooftop ''Main Street'' None]) ''Main Street'' =
       Inl TypeError"
proof -
  have h1: "filter isExactMatch (nonCountryResults [rooftop ''Main Street'' None]) =
      [rooftop ''Main Street'' None]"
    by (simp add: nonCountryResults_def isCountryOnlyResult_def isExactMatch_def
        locationTypeOf_def rooftop_def)
  have h2: "compareAddresses ''Main Street''
      (geocode_result.formatted_address (rooftop ''Main Street'' None)) = validated"
    by (simp add: compareAddresses_def rooftop_def)
  have h3: "address_components (rooftop ''Main Street'' None) = None"
    by (simp add: rooftop_def)
  from h1 exact_filter_nonempty [OF h1] h3
  have "classifyGeocodeResults (Some [rooftop ''Main Street'' None]) ''Main Street'' =
      Inl TypeError"
    by (simp add: classify_unfold)
  with h1 h2 show ?thesis
    by simp
qed

lemma compare_main_street_oak:
  "compareAddresses ''Main Street'' ''456 Oak Avenue, Other City, NY'' = corrected"
  by code_simp

lemma truthy_iff: "truthy v = (v \<notin> {None, Some []})"
  by (cases v) (auto simp: truthy_def)

lemma isCountryOnlyResult_iff:
  "isCountryOnlyResult r =
     (partial_match r \<and>
      ((\<exists>ts. geocode_result.types r = Some ts \<and> ''country'' \<in> set ts)
       \<or> (street_number (extractAddressComponents (orEmptyArray (address_components r)))
              \<in> {None, Some []}
          \<and> street_name (extractAddressComponents (orEmptyArray (address_components r)))
              \<in> {None, Some []}
          \<and> city (extractAddressComponents (orEmptyArray (address_components r)))
              \<in> {None, Some []}
          \<and> zipCode (extractAddressComponents (orEmptyArray (address_components r)))
              \<in> {None, Some []})))"
  unfolding isCountryOnlyResult_def Let_def truthy_iff
  by (cases "geocode_result.types r") auto

lemma all_country_only:
  assumes "rs \<noteq> []" and "\<forall>r\<in>set rs. isCountryOnlyResult r"
  shows "classifyGeocodeResults (Some rs) inp = Inr (Unverifiable ''No precise US match found.'')"
proof -
  from assms(2) have "nonCountryResults rs = []"
    by (simp add: nonCountryResults_def)
  with assms(1) show ?thesis
    by (simp add: classify_unfold)
qed

text \<open>
  Claim C3, as amended. The classifier discards a result as a country-only fallback
  exactly when its \<^verbatim>\<open>partial_match\<close> is true and either its \<^verbatim>\<open>types\<close> contain
  \<^verbatim>\<open>"country"\<close> or each of its extracted street number, street name, city and postal
  code is absent or the empty string (the source tests them with \<^verbatim>\<open>!\<close>, and the empty
  string is falsy). When the list is not empty and every result is discarded, in
  particular when every result is a partial match typed \<^verbatim>\<open>"country"\<close>, the answer is
  \<open>Unverifiable\<close> with the message \<^verbatim>\<open>No precise US match found.\<close>
\<close>

theorem country_only_filter:
  "(isCountryOnlyResult r =
     (partial_match r \<and>
      ((\<exists>ts. geocode_result.types r = Some ts \<and> ''country'' \<in> set ts)
       \<or> (street_number (extractAddressComponents (orEmptyArray (address_components r)))
              \<in> {None, Some []}
          \<and> street_name (extractAddressComponents (orEmptyArray (address_components r)))
              \<in> {None, Some []}
          \<and> city (extractAddressComponents (orEmptyArray (address_components r)))
              \<in> {None, Some []}
          \<and> zipCode (extractAddressComponents (orEmptyArray (address_components r)))
              \<in> {None, Some []}))))
   \<and> (rs \<noteq> [] \<and> (\<forall>c\<in>set rs. isCountryOnlyResult c) \<longrightarrow>
        classifyGeocodeResults (Some rs) inp =
          Inr (Unverifiable ''No precise US match found.''))
   \<and> (rs \<noteq> []
        \<and> (\<forall>c\<in>set rs. partial_match c
              \<and> (\<exists>ts. geocode_result.types c = Some ts \<and> ''country'' \<in> set ts)) \<longrightarrow>
        classifyGeocodeResults (Some rs) inp =
          Inr (Unverifiable ''No precise US match found.''))"
proof (intro conjI impI)
  assume "rs \<noteq> [] \<and> (\<forall>c\<in>set rs. isCountryOnlyResult c)"
  then show "classifyGeocodeResults (Some rs) inp =
      Inr (Unverifiable ''No precise US match found.'')"
    by (simp add: all_country_only)
next
  assume a: "rs \<noteq> []
        \<and> (\<forall>c\<in>set rs. partial_match c
              \<and> (\<exists>ts. geocode_result.types c = Some ts \<and> ''country'' \<in> set ts))"
  then have "\<forall>c\<in>set rs. isCountryOnlyResult c"
    by (simp add: isCountryOnlyResult_iff)
  with a show "classifyGeocodeResults (Some rs) inp =
      Inr (Unverifiable ''No precise US match found.'')"
    by (simp add: all_country_only)
qed (rule isCountryOnlyResult_iff)

theorem country_only_filter_witness:
  "isCountryOnlyResult countryFallback
   \<and> partial_match countryFallback
   \<and> geocode_result.types countryFallback = Some [''country'', ''political'']
   \<and> classifyGeocodeResults (Some [countryFallback]) ''asdfgh'' =
       Inr (Unverifiable ''No precise US match found.'')"
proof -
  have h: "partial_match countryFallback"
    "geocode_result.types countryFallback = Some [''country'', ''political'']"
    by (simp_all add: countryFallback_def)
  with country_only_filter [of countryFallback "[countryFallback]" "''asdfgh''"]
  show ?thesis
    by simp
qed

text \<open>
  The claim as stated, with "absent" alone, fails: this partial match is discarded
  although its types do not contain \<^verbatim>\<open>"country"\<close> and its extracted street number is
  present (it is the empty string).
\<close>

theorem country_only_filter_counterexample:
  "isCountryOnlyResult emptyStreetNumber
   \<and> geocode_result.types emptyStreetNumber = Some []
   \<and> street_number
        (extractAddressComponents (orEmptyArray (address_components emptyStreetNumber)))
      = Some []"
  by (simp add: isCountryOnlyResult_def emptyStreetNumber_def orEmptyArray_def
      extractAddressComponents_def get_def truthy_def js_or_def)


lemma normalize_equal_validated:
  "normalize_addr a = normalize_addr b \<Longrightarrow> compareAddresses a b = validated"
  by (simp add: compareAddresses_def)

text \<open>
  Claim C4, as amended. When the first result with location type \<^verbatim>\<open>ROOFTOP\<close> and
  \<^verbatim>\<open>partial_match\<close> false (\<open>best\<close>, with its component array \<open>comps\<close>) has a formatted address
  that normalizes to the same string as the original input, the answer is \<open>Exact\<close>.
\<close>

theorem first_rooftop_identical_is_exact:
  assumes "List.find isExactMatch rs = Some best"
    and "address_components best = Some comps"
    and "normalize_addr (geocode_result.formatted_address best) = normalize_addr inp"
  shows "classifyGeocodeResults (Some rs) inp =
     Inr (Exact (geocode_result.formatted_address best) (extractAddressComponents comps))"
proof -
  from assms(1) obtain others where "filter isExactMatch rs = best # others"
    by (auto dest: find_Some_filter)
  then have "filter isExactMatch (nonCountryResults rs) = best # others"
    by (simp add: filter_exact_nonCountry)
  from exact_path [OF this assms(2)] assms(3) show ?thesis
    by (simp add: normalize_equal_validated)
qed

lemma isExactMatch_rooftop: "isExactMatch (rooftop fa comps)"
  by (simp add: isExactMatch_def locationTypeOf_def rooftop_def)

lemma rooftop_sel:
  "geocode_result.formatted_address (rooftop fa comps) = fa"
  "address_components (rooftop fa comps) = comps"
  by (simp_all add: rooftop_def)

lemma normalize_main_street: "normalize_addr ''Main Street'' = ''main st''"
  by code_simp

lemma normalize_main_st: "normalize_addr ''main st.'' = ''main st''"
  by code_simp

theorem first_rooftop_identical_is_exact_witness:
  "List.find isExactMatch [partialApproximate ''Main St, Springfield'', rooftop ''Main Street'' (Some [])]
     = Some (rooftop ''Main Street'' (Some []))
   \<and> normalize_addr ''Main Street'' = normalize_addr ''main st.''
   \<and> classifyGeocodeResults
        (Some [partialApproximate ''Main St, Springfield'', rooftop ''Main Street'' (Some [])])
        ''main st.'' =
      Inr (Exact ''Main Street'' (extractAddressComponents []))"
proof -
  have np: "\<not> isExactMatch (partialApproximate ''Main St, Springfield'')"
    by (simp add: isExactMatch_def partialApproximate_def)
  have h1: "List.find isExactMatch
      [partialApproximate ''Main St, Springfield'', rooftop ''Main Street'' (Some [])]
     = Some (rooftop ''Main Street'' (Some []))"
    by (simp add: np isExactMatch_rooftop)
  have h3: "normalize_addr (geocode_result.formatted_address (rooftop ''Main Street'' (Some [])))
      = normalize_addr ''main st.''"
    by (simp only: rooftop_sel normalize_main_street normalize_main_st)
  from first_rooftop_identical_is_exact [OF h1 rooftop_sel(2) h3] h1 show ?thesis
    by (simp only: rooftop_sel normalize_main_street normalize_main_st)
qed

text \<open>
  The claim as stated, for some such result anywhere in the list, fails: the second
  result normalizes to the same string as the input, the classifier compares the first
  one only and answers \<open>Corrected\<close>.
\<close>

theorem some_rooftop_identical_counterexample:
  "rooftop ''Main Street'' (Some [])
     \<in> set [rooftop ''456 Oak Avenue, Other City, NY'' (Some []), rooftop ''Main Street'' (Some [])]
   \<and> \<not> partial_match (rooftop ''Main Street'' (Some []))
   \<and> locationTypeOf (rooftop ''Main Street'' (Some [])) = Some ''ROOFTOP''
   \<and> normalize_addr (geocode_result.formatted_address (rooftop ''Main Street'' (Some [])))
       = normalize_addr ''Main Street''
   \<and> classifyGeocodeResults
       (Some [rooftop ''456 Oak Avenue, Other City, NY'' (Some []),
              rooftop ''Main Street'' (Some [])]) ''Main Street'' =
     Inr (Corrected [''456 Oak Avenue, Other City, NY''])"
proof -
  have h1: "filter isExactMatch
     (nonCountryResults
       [rooftop ''456 Oak Avenue, Other City, NY'' (Some []), rooftop ''Main Street'' (Some [])]) =
     [rooftop ''456 Oak Avenue, Other City, NY'' (Some []), rooftop ''Main Street'' (Some [])]"
    by (simp add: filter_exact_nonCountry isExactMatch_rooftop)
  from exact_path [OF h1 rooftop_sel(2), of "''Main Street''"] show ?thesis
    by (simp add: rooftop_sel compare_main_street_oak) (simp add: rooftop_def locationTypeOf_def)
qed


lemma similarity_mian:
  "similarity (normalize_addr ''123 Mian St'')
     (normalize_addr ''123 Main St, Anytown, CA 90210, USA'') = 2 / 7"
  by code_simp

lemma compare_mian:
  "compareAddresses ''123 Mian St'' ''123 Main St, Anytown, CA 90210, USA'' = corrected"
  by code_simp

text \<open>
  Claim C5, as amended. For the input \<^verbatim>\<open>123 Mian St\<close> and one result with formatted
  address \<^verbatim>\<open>123 Main St, Anytown, CA 90210, USA\<close>, location type \<^verbatim>\<open>ROOFTOP\<close> and
  \<^verbatim>\<open>partial_match\<close> false, the word-overlap similarity is 2/7 (the words \<^verbatim>\<open>123\<close> and
  \<^verbatim>\<open>st\<close> are shared, of 3 and 7), which does not exceed 0.6, and the answer is
  \<open>Corrected\<close> with that formatted address as the single alternative.
\<close>

theorem typo_scenario_is_corrected:
  assumes "geocode_result.formatted_address r = ''123 Main St, Anytown, CA 90210, USA''"
    and "\<not> partial_match r"
    and "locationTypeOf r = Some ''ROOFTOP''"
    and "address_components r = Some comps"
  shows "similarity (normalize_addr ''123 Mian St'')
           (normalize_addr (geocode_result.formatted_address r)) = 2 / 7
     \<and> \<not> similarity (normalize_addr ''123 Mian St'')
             (normalize_addr (geocode_result.formatted_address r)) > 0.6
     \<and> classifyGeocodeResults (Some [r]) ''123 Mian St'' =
         Inr (Corrected [''123 Main St, Anytown, CA 90210, USA''])"
proof -
  from assms(2,3) have "isExactMatch r"
    by (simp add: isExactMatch_def)
  then have "filter isExactMatch (nonCountryResults [r]) = [r]"
    by (simp add: filter_exact_nonCountry)
  from exact_path [OF this assms(4), of "''123 Mian St''"] show ?thesis
    by (simp add: assms(1) similarity_mian compare_mian)
qed

theorem typo_scenario_is_corrected_witness:
  "geocode_result.formatted_address (rooftop ''123 Main St, Anytown, CA 90210, USA'' (Some []))
     = ''123 Main St, Anytown, CA 90210, USA''
   \<and> \<not> partial_match (rooftop ''123 Main St, Anytown, CA 90210, USA'' (Some []))
   \<and> locationTypeOf (rooftop ''123 Main St, Anytown, CA 90210, USA'' (Some [])) = Some ''ROOFTOP''
   \<and> address_components (rooftop ''123 Main St, Anytown, CA 90210, USA'' (Some [])) = Some []
   \<and> classifyGeocodeResults
        (Some [rooftop ''123 Main St, Anytown, CA 90210, USA'' (Some [])]) ''123 Mian St'' =
       Inr (Corrected [''123 Main St, Anytown, CA 90210, USA''])"
proof -
  have h1: "geocode_result.formatted_address
      (rooftop ''123 Main St, Anytown, CA 90210, USA'' (Some []))
     = ''123 Main St, Anytown, CA 90210, USA''"
    and h2: "\<not> partial_match (rooftop ''123 Main St, Anytown, CA 90210, USA'' (Some []))"
    and h3: "locationTypeOf (rooftop ''123 Main St, Anytown, CA 90210, USA'' (Some []))
       = Some ''ROOFTOP''"
    and h4: "address_components (rooftop ''123 Main St, Anytown, CA 90210, USA'' (Some []))
       = Some []"
    by (simp_all add: rooftop_def locationTypeOf_def)
  from typo_scenario_is_corrected [OF h1 h2 h3 h4] h1 h2 h3 h4 show ?thesis
    by blast
qed

text \<open>
  The claim as stated fails at its own input: the similarity does not exceed 0.6 and
  the answer is not \<open>Exact\<close>.
\<close>

theorem typo_scenario_counterexample:
  "\<not> similarity (normalize_addr ''123 Mian St'')
        (normalize_addr ''123 Main St, Anytown, CA 90210, USA'') > 0.6
   \<and> classifyGeocodeResults
        (Some [rooftop ''123 Main St, Anytown, CA 90210, USA'' (Some [])]) ''123 Mian St'' =
       Inr (Corrected [''123 Main St, Anytown, CA 90210, USA''])"
proof -
  have "filter isExactMatch
      (nonCountryResults [rooftop ''123 Main St, Anytown, CA 90210, USA'' (Some [])])
     = [rooftop ''123 Main St, Anytown, CA 90210, USA'' (Some [])]"
    by (simp add: filter_exact_nonCountry isExactMatch_rooftop)
  from exact_path [OF this rooftop_sel(2), of "''123 Mian St''"] show ?thesis
    by (simp add: rooftop_sel similarity_mian compare_mian)
qed

text \<open>
  Claim C6: the classifier never raises. It does for a result with location type
  \<^verbatim>\<open>ROOFTOP\<close> and \<^verbatim>\<open>partial_match\<close> false that carries no \<^verbatim>\<open>address_components\<close>: the
  exact-match path passes \<^verbatim>\<open>best.address_components\<close> to the extractor without the
  \<^verbatim>\<open>|| []\<close> that \<^verbatim>\<open>isCountryOnlyResult\<close> applies, and \<^verbatim>\<open>components.find\<close> raises a
  \<^verbatim>\<open>TypeError\<close>.
\<close>

theorem classify_raises_without_components:
  "classifyGeocodeResults (Some [rooftop ''1 Main St, Anytown, CA 90210, USA'' None])
     ''1 Main St, Anytown, CA 90210, USA'' = Inl TypeError"
proof -
  have "filter isExactMatch
      (nonCountryResults [rooftop ''1 Main St, Anytown, CA 90210, USA'' None])
     = [rooftop ''1 Main St, Anytown, CA 90210, USA'' None]"
    by (simp add: filter_exact_nonCountry isExactMatch_rooftop)
  from this exact_filter_nonempty [OF this] show ?thesis
    by (simp add: classify_unfold rooftop_sel)
qed

text \<open>
  In the model that missing array is the only way to an exception: when every result
  with location type \<^verbatim>\<open>ROOFTOP\<close> and \<^verbatim>\<open>partial_match\<close> false carries its components, the
  classifier returns an answer, and every answer is one of the three outcomes.
\<close>

lemma classify_cases:
  "classifyGeocodeResults results inp = Inl TypeError
   \<or> (\<exists>fa comps. classifyGeocodeResults results inp = Inr (Exact fa comps))
   \<or> (\<exists>alts. alts \<noteq> [] \<and> classifyGeocodeResults results inp = Inr (Corrected alts))
   \<or> (\<exists>msg. classifyGeocodeResults results inp = Inr (Unverifiable msg))"
proof (cases results)
  case None
  then show ?thesis
    by (auto simp: classify_None)
next
  case (Some rs)
  show ?thesis
    unfolding Some classify_unfold
    by (auto split: list.splits option.splits)
qed

lemma classify_total_with_components:
  assumes "\<forall>r\<in>set rs. isExactMatch r \<longrightarrow> address_components r \<noteq> None"
  shows "\<exists>out. classifyGeocodeResults (Some rs) inp = Inr out"
proof (cases "filter isExactMatch (nonCountryResults rs)")
  case Nil
  then show ?thesis
    by (simp add: classify_unfold)
next
  case (Cons best others)
  then have "best \<in> set (filter isExactMatch (nonCountryResults rs))"
    by simp
  then have "best \<in> set rs" and "isExactMatch best"
    by (simp_all add: nonCountryResults_def)
  with assms obtain comps where "address_components best = Some comps"
    by auto
  from exact_path [OF Cons this] show ?thesis
    by simp
qed

lemma status_simps:
  "status (Exact fa comps) = VALIDATED"
  "status (Corrected alts) = CORRECTED"
  "status (Unverifiable msg) = UNVERIFIABLE"
  "possibleMatches (Corrected alts) = Some alts"
  "possibleMatches (Exact fa comps) = None"
  "possibleMatches (Unverifiable msg) = None"
  "exactMatch (Exact fa comps) = Some \<lparr>exact_match.formatted_address = fa, components = comps\<rparr>"
  "exactMatch (Corrected alts) = None"
  "exactMatch (Unverifiable msg) = None"
  by (simp_all add: Exact_def Corrected_def Unverifiable_def)

text \<open>
  Claim C7. Whenever the classifier returns the \<open>Corrected\<close> variant, its list of
  alternatives is present and not empty.
\<close>

theorem corrected_alternatives_nonempty:
  assumes "classifyGeocodeResults results inp = Inr out"
    and "status out = CORRECTED"
  shows "\<exists>alts. possibleMatches out = Some alts \<and> alts \<noteq> []"
  using classify_cases [of results inp] assms
  by (auto simp: status_simps)


lemma partialApproximate_facts:
  "\<not> isCountryOnlyResult (partialApproximate fa)"
  "\<not> isExactMatch (partialApproximate fa)"
  "isPossibleMatch (partialApproximate fa)"
  "geocode_result.formatted_address (partialApproximate fa) = fa"
  by (simp_all add: isCountryOnlyResult_def isExactMatch_def isPossibleMatch_def
      partialApproximate_def extractAddressComponents_def get_def js_or_def truthy_def
      orEmptyArray_def)

lemma classify_two_partial:
  "classifyGeocodeResults
     (Some [partialApproximate ''123 Main St, Springfield, IL'',
            partialApproximate ''123 Main St, Springfield, MO'']) inp =
   Inr (Corrected [''123 Main St, Springfield, IL'', ''123 Main St, Springfield, MO''])"
  by (simp add: classify_unfold nonCountryResults_def partialApproximate_facts)

theorem corrected_alternatives_nonempty_witness:
  "classifyGeocodeResults
     (Some [partialApproximate ''123 Main St, Springfield, IL'',
            partialApproximate ''123 Main St, Springfield, MO'']) ''123 Main St Springfield'' =
   Inr (Corrected [''123 Main St, Springfield, IL'', ''123 Main St, Springfield, MO''])
   \<and> status (Corrected [''123 Main St, Springfield, IL'', ''123 Main St, Springfield, MO''])
       = CORRECTED
   \<and> (\<exists>alts. possibleMatches
         (Corrected [''123 Main St, Springfield, IL'', ''123 Main St, Springfield, MO''])
          = Some alts \<and> alts \<noteq> [])"
  using corrected_alternatives_nonempty [OF classify_two_partial status_simps(2)]
    classify_two_partial status_simps(2)
  by blast

text \<open>
  Claim C9. Every address string in the classifier's answer is the formatted address of
  one of the results it was given: the formatted address of an exact match, and each
  element of the alternatives. When no result is an exact match, the alternatives are
  exactly the formatted addresses of the results that pass the country-only filter and
  the possible-match filter, in the order of the input.
\<close>

theorem outcome_addresses_come_from_input:
  assumes "classifyGeocodeResults (Some rs) inp = Inr out"
  shows "(\<forall>e. exactMatch out = Some e \<longrightarrow>
            exact_match.formatted_address e \<in> geocode_result.formatted_address ` set rs)
     \<and> (\<forall>alts. possibleMatches out = Some alts \<longrightarrow>
            set alts \<subseteq> geocode_result.formatted_address ` set rs)
     \<and> (filter isExactMatch (nonCountryResults rs) = [] \<longrightarrow>
          (\<forall>alts. possibleMatches out = Some alts \<longrightarrow>
             alts = map geocode_result.formatted_address
                      (filter (\<lambda>r. \<not> isCountryOnlyResult r \<and> isPossibleMatch r) rs)))"
proof (cases "filter isExactMatch (nonCountryResults rs)")
  case Nil
  with assms show ?thesis
    by (auto simp: classify_unfold status_simps nonCountryResults_def split: if_splits)
next
  case (Cons best others)
  then have "best \<in> set (filter isExactMatch (nonCountryResults rs))"
    by simp
  then have mem: "best \<in> set rs"
    by (simp add: nonCountryResults_def)
  from Cons assms exact_filter_nonempty [OF Cons]
  obtain comps where "address_components best = Some comps"
    by (auto simp: classify_unfold split: option.splits)
  from exact_path [OF Cons this, of inp] assms mem Cons show ?thesis
    by (auto simp: status_simps split: if_splits)
qed

theorem outcome_addresses_come_from_input_witness:
  "classifyGeocodeResults
     (Some [countryFallback, partialApproximate ''123 Main St, Springfield, IL'',
            partialApproximate ''123 Main St, Springfield, MO'']) ''123 Main St Springfield'' =
   Inr (Corrected [''123 Main St, Springfield, IL'', ''123 Main St, Springfield, MO''])
   \<and> set [''123 Main St, Springfield, IL'', ''123 Main St, Springfield, MO'']
       \<subseteq> geocode_result.formatted_address `
           set [countryFallback, partialApproximate ''123 Main St, Springfield, IL'',
                partialApproximate ''123 Main St, Springfield, MO'']
   \<and> [''123 Main St, Springfield, IL'', ''123 Main St, Springfield, MO''] =
       map geocode_result.formatted_address
         (filter (\<lambda>r. \<not> isCountryOnlyResult r \<and> isPossibleMatch r)
           [countryFallback, partialApproximate ''123 Main St, Springfield, IL'',
            partialApproximate ''123 Main St, Springfield, MO''])"
proof -
  have cf: "isCountryOnlyResult countryFallback"
    by (simp add: isCountryOnlyResult_def countryFallback_def)
  have nc: "nonCountryResults
      [countryFallback, partialApproximate ''123 Main St, Springfield, IL'',
       partialApproximate ''123 Main St, Springfield, MO''] =
      [partialApproximate ''123 Main St, Springfield, IL'',
       partialApproximate ''123 Main St, Springfield, MO'']"
    by (simp add: nonCountryResults_def cf partialApproximate_facts)
  have h: "classifyGeocodeResults
     (Some [countryFallback, partialApproximate ''123 Main St, Springfield, IL'',
            partialApproximate ''123 Main St, Springfield, MO'']) ''123 Main St Springfield'' =
     Inr (Corrected [''123 Main St, Springfield, IL'', ''123 Main St, Springfield, MO''])"
    by (simp add: classify_unfold nc partialApproximate_facts)
  have e: "filter isExactMatch (nonCountryResults
      [countryFallback, partialApproximate ''123 Main St, Springfield, IL'',
       partialApproximate ''123 Main St, Springfield, MO'']) = []"
    by (simp add: nc partialApproximate_facts)
  from outcome_addresses_come_from_input [OF h] e h show ?thesis
    by (simp only: status_simps)
qed

text \<open>
  Claim C10. A result whose \<^verbatim>\<open>partial_match\<close> is false is never discarded by the
  country-only filter, whatever its types and components; so a single such result with
  location type \<^verbatim>\<open>APPROXIMATE\<close>, for instance the one typed \<^verbatim>\<open>"country"\<close> with formatted
  address \<^verbatim>\<open>United States\<close>, yields \<open>Corrected\<close> with its formatted address as the only
  alternative.
\<close>

theorem non_partial_never_country_only:
  "(\<not> partial_match r \<longrightarrow> \<not> isCountryOnlyResult r)
   \<and> (\<not> partial_match r \<and> locationTypeOf r = Some ''APPROXIMATE'' \<longrightarrow>
        classifyGeocodeResults (Some [r]) inp =
          Inr (Corrected [geocode_result.formatted_address r]))"
  by (simp add: non_partial_not_country_only classify_unfold nonCountryResults_def
      isExactMatch_def isPossibleMatch_def)

theorem non_partial_never_country_only_witness:
  "\<not> partial_match countryNonPartial
   \<and> geocode_result.types countryNonPartial = Some [''country'', ''political'']
   \<and> extractAddressComponents (orEmptyArray (address_components countryNonPartial)) =
       \<lparr>street_number = None, street_name = None, city = None, state = None, zipCode = None\<rparr>
   \<and> locationTypeOf countryNonPartial = Some ''APPROXIMATE''
   \<and> \<not> isCountryOnlyResult countryNonPartial
   \<and> classifyGeocodeResults (Some [countryNonPartial]) ''usa'' =
       Inr (Corrected [''United States''])"
proof -
  have h: "\<not> partial_match countryNonPartial"
    "locationTypeOf countryNonPartial = Some ''APPROXIMATE''"
    "geocode_result.formatted_address countryNonPartial = ''United States''"
    by (simp_all add: countryNonPartial_def countryFallback_def locationTypeOf_def)
  have e: "geocode_result.types countryNonPartial = Some [''country'', ''political'']"
    "extractAddressComponents (orEmptyArray (address_components countryNonPartial)) =
       \<lparr>street_number = None, street_name = None, city = None, state = None, zipCode = None\<rparr>"
    by (simp_all add: countryNonPartial_def countryFallback_def orEmptyArray_def
        extractAddressComponents_def get_def js_or_def truthy_def)
  from non_partial_never_country_only [of countryNonPartial "''usa''"] h e show ?thesis
    by simp
qed

end
